theory Spec2Isabelle
  imports Complex_Main "HOL-Library.Word"
begin

section \<open>The document, as showElementDimensions sees it\<close>

text \<open>
  The program is one JavaScript function, \<^verbatim>\<open>showElementDimensions(options)\<close>, with a
  nested closure \<^verbatim>\<open>updateDimensions\<close>. Everything it does is an effect on the hosting
  page, so the page is an explicit state that each operation takes and returns.

  Element objects live in a store: \<open>elems\<close> lists them in creation order and a \<open>node\<close> is
  the index of its object, so two references alias exactly when the indices are equal and
  \<^verbatim>\<open>document.createElement\<close> always yields an index that no earlier reference holds.
\<close>

type_synonym node = nat

text \<open>
  The inline style of an element, one field per property the program assigns. A fresh
  element has every property empty. The record holds the text the program assigns; whether
  the style engine of the host accepts a colour it is given is not the program's business.
\<close>

record css =
  position :: string
  top :: string
  left :: string
  transform :: string
  zIndex :: string
  border :: string
  color :: string
  fontWeight :: string
  backgroundColor :: string
  padding :: string
  margin :: string
  display :: string
  boxShadow :: string

definition empty_style :: css where
  "empty_style =
     \<lparr>position = [], top = [], left = [], transform = [], zIndex = [], border = [],
      color = [], fontWeight = [], backgroundColor = [], padding = [], margin = [],
      display = [], boxShadow = []\<rparr>"

text \<open>
  What an element shows: \<open>Text s\<close> after \<^verbatim>\<open>textContent = s\<close> (one text node, nothing
  parsed), \<open>Markup s\<close> after \<^verbatim>\<open>innerHTML = s\<close> (the subtree the host parses from \<open>s\<close>).
\<close>

datatype content = Text string | Markup string

record element =
  localName :: string
  className :: string
  style :: css
  content :: content

text \<open>A \<^verbatim>\<open>DOMRect\<close>, reduced to the two fields read. A finite double is a rational.\<close>

record rect =
  width :: rat
  height :: rat

text \<open>
  The closure \<^verbatim>\<open>updateDimensions\<close> captures three variables of the call that made it:
  \<^verbatim>\<open>element\<close>, \<^verbatim>\<open>resultsBloc\<close> and \<^verbatim>\<open>selector\<close>, in this order.
\<close>

datatype callback = UpdateDimensions node node string

text \<open>
  What the program asks of the host, recorded in program order: lookups, creation,
  insertion, writes of content, reads of geometry (\<open>ReadViewport\<close> stands for the reads of
  \<^verbatim>\<open>innerWidth\<close> and \<^verbatim>\<open>innerHeight\<close> together) and subscriptions. Assignments to
  \<^verbatim>\<open>className\<close> and to style properties are not recorded.
\<close>

datatype effect =
    QuerySelector string
  | CreateElement node
  | AppendChild node
  | SetTextContent node
  | ReadViewport
  | GetBoundingClientRect node
  | SetInnerHTML node
  | NewResizeObserver nat
  | Observe nat node
  | AddEventListener callback

record page =
  elems :: "element list"
  body :: "node list"
  innerWidth :: "32 word"
  innerHeight :: "32 word"
  rects :: "node \<Rightarrow> rect"
  hasResizeObserver :: bool
  observers :: "(callback \<times> node list) list"
  resizeListeners :: "callback list"
  trace :: "effect list"

text \<open>
  The document has a body, as it has once it is loaded, which is when the function is meant
  to be called. \<open>body\<close> is the child list of \<^verbatim>\<open>document.body\<close>; \<open>innerWidth\<close> and \<open>innerHeight\<close> are
  the \<^verbatim>\<open>long\<close> attributes of \<^verbatim>\<open>window\<close>; \<open>rects\<close> is the current layout;
  \<open>hasResizeObserver\<close> is \<^verbatim>\<open>"ResizeObserver" in window\<close>; \<open>observers\<close> holds every
  \<^verbatim>\<open>ResizeObserver\<close> with its callback and its observed targets; \<open>resizeListeners\<close>
  holds the listeners of the window's \<^verbatim>\<open>resize\<close> event in registration order.
\<close>

text \<open>
  Two services of the host that are not code of the program are parameters:
  \<^item> \<open>matchAll\<close>, the selector engine: \<open>None\<close> when the string is not a selector, otherwise
    the matching elements of the current page in document order;
  \<^item> \<open>numberToString\<close>, the exponent notation of \<^verbatim>\<open>Number::toString\<close>, which
    \<^verbatim>\<open>toFixed\<close> falls back to for magnitudes of at least \<open>10^21\<close>.
\<close>

record host =
  matchAll :: "page \<Rightarrow> string \<Rightarrow> node list option"
  numberToString :: "rat \<Rightarrow> string"

datatype js_error = SyntaxError

text \<open>The argument object: an absent property is \<open>None\<close>.\<close>

record options =
  selector :: "string option"
  color :: "string option"

section \<open>Host operations\<close>

definition logged :: "effect list \<Rightarrow> page \<Rightarrow> page" where
  "logged es p = p\<lparr>trace := trace p @ es\<rparr>"

text \<open>
  \<^verbatim>\<open>document.querySelector\<close>: a string that is not a selector throws a
  \<^verbatim>\<open>SyntaxError\<close>; otherwise the first match, or \<^verbatim>\<open>null\<close>.
\<close>

definition querySelector :: "host \<Rightarrow> string \<Rightarrow> page \<Rightarrow> js_error + (node option \<times> page)" where
  "querySelector h sel p =
     (case matchAll h p sel of
        None \<Rightarrow> Inl SyntaxError
      | Some ns \<Rightarrow>
          Inr (case ns of [] \<Rightarrow> None | n # _ \<Rightarrow> Some n, logged [QuerySelector sel] p))"

definition createElement :: "string \<Rightarrow> page \<Rightarrow> node \<times> page" where
  "createElement name p =
     (let n = length (elems p)
      in (n, logged [CreateElement n]
               (p\<lparr>elems := elems p @
                   [\<lparr>localName = name, className = [], style = empty_style,
                     content = Text []\<rparr>]\<rparr>)))"

text \<open>
  A write to a property of an element object. The program holds references only to objects
  that exist; for an index the store does not hold, the page is left as it is.
\<close>

definition modify :: "node \<Rightarrow> (element \<Rightarrow> element) \<Rightarrow> page \<Rightarrow> page" where
  "modify n f p =
     (if n < length (elems p) then p\<lparr>elems := (elems p)[n := f (elems p ! n)]\<rparr> else p)"

definition assign_style :: "node \<Rightarrow> (css \<Rightarrow> css) \<Rightarrow> page \<Rightarrow> page" where
  "assign_style n f p = modify n (\<lambda>e. e\<lparr>style := f (style e)\<rparr>) p"

definition set_className :: "node \<Rightarrow> string \<Rightarrow> page \<Rightarrow> page" where
  "set_className n s p = modify n (\<lambda>e. e\<lparr>className := s\<rparr>) p"

definition set_textContent :: "node \<Rightarrow> string \<Rightarrow> page \<Rightarrow> page" where
  "set_textContent n s p = logged [SetTextContent n] (modify n (\<lambda>e. e\<lparr>content := Text s\<rparr>) p)"

definition set_innerHTML :: "node \<Rightarrow> string \<Rightarrow> page \<Rightarrow> page" where
  "set_innerHTML n s p = logged [SetInnerHTML n] (modify n (\<lambda>e. e\<lparr>content := Markup s\<rparr>) p)"

text \<open>\<^verbatim>\<open>document.body.appendChild\<close>: a node already there moves to the end.\<close>

definition appendChild :: "node \<Rightarrow> page \<Rightarrow> page" where
  "appendChild n p = logged [AppendChild n] (p\<lparr>body := removeAll n (body p) @ [n]\<rparr>)"

definition newResizeObserver :: "callback \<Rightarrow> page \<Rightarrow> nat \<times> page" where
  "newResizeObserver cb p =
     (let i = length (observers p)
      in (i, logged [NewResizeObserver i] (p\<lparr>observers := observers p @ [(cb, [])]\<rparr>)))"

text \<open>\<^verbatim>\<open>observer.observe(target)\<close>: a target already observed is not added again.\<close>

definition observe :: "nat \<Rightarrow> node \<Rightarrow> page \<Rightarrow> page" where
  "observe i n p =
     logged [Observe i n]
       (if i < length (observers p) then
          (case observers p ! i of
             (cb, ts) \<Rightarrow>
               p\<lparr>observers := (observers p)[i := (cb, if n \<in> set ts then ts else ts @ [n])]\<rparr>)
        else p)"

text \<open>
  \<^verbatim>\<open>window.addEventListener("resize", f)\<close>. Every evaluation of the declaration of
  \<^verbatim>\<open>updateDimensions\<close> makes a new function object, so the listener is never one that is
  registered already and always goes to the end of the list.
\<close>

definition addEventListener :: "callback \<Rightarrow> page \<Rightarrow> page" where
  "addEventListener cb p =
     logged [AddEventListener cb] (p\<lparr>resizeListeners := resizeListeners p @ [cb]\<rparr>)"

section \<open>Numbers as text\<close>

definition digit_char :: "nat \<Rightarrow> char" where
  "digit_char d = char_of (48 + d)"

fun decimal :: "nat \<Rightarrow> string" where
  "decimal n = (if n < 10 then [digit_char n] else decimal (n div 10) @ [digit_char (n mod 10)])"

declare decimal.simps [simp del]

text \<open>A \<^verbatim>\<open>long\<close> in a template literal: its decimal digits, with a sign when negative.\<close>

definition long_toString :: "32 word \<Rightarrow> string" where
  "long_toString w =
     (if sint w < 0 then ''-'' @ decimal (nat (- sint w)) else decimal (nat (sint w)))"

text \<open>
  \<^verbatim>\<open>Number.prototype.toFixed(f)\<close> on a finite number, step by step as ECMAScript gives
  it: the sign is split off; a magnitude of at least \<open>10^21\<close> is printed by
  \<^verbatim>\<open>Number::toString\<close>; otherwise \<open>n\<close> is the integer nearest to \<open>x * 10^f\<close> (the larger
  one of two), its digits are padded with zeros to \<open>f + 1\<close> places and the point goes
  before the last \<open>f\<close>.
\<close>

definition toFixed :: "host \<Rightarrow> nat \<Rightarrow> rat \<Rightarrow> string" where
  "toFixed h f x0 =
     (let s = (if x0 < 0 then ''-'' else []);
          x = (if x0 < 0 then - x0 else x0)
      in if 10 ^ 21 \<le> x then s @ numberToString h x
         else
           let n = nat \<lfloor>x * 10 ^ f + 1 / 2\<rfloor>;
               m = decimal n
           in if f \<noteq> 0 then
                let k = length m;
                    m' = (if k \<le> f then replicate (f + 1 - k) (CHR ''0'') @ m else m);
                    k' = length m'
                in s @ take (k' - f) m' @ ''.'' @ drop (k' - f) m'
              else s @ m)"

section \<open>The program\<close>

definition newline :: char where
  "newline = CHR 0x0A"

definition spaces :: "nat \<Rightarrow> string" where
  "spaces n = replicate n (CHR '' '')"

text \<open>The template literal assigned to \<^verbatim>\<open>innerHTML\<close>, with its line breaks and indentation.\<close>

definition dimensions_markup :: "string \<Rightarrow> string \<Rightarrow> string \<Rightarrow> string \<Rightarrow> string \<Rightarrow> string" where
  "dimensions_markup sel vpWidth vpHeight elWidth elHeight =
     [newline] @ spaces 12 @ ''Viewport => width: '' @ vpWidth @ ''px | height: '' @ vpHeight @ ''px'' @
     [newline] @ spaces 12 @ ''<br>'' @
     [newline] @ spaces 12 @ sel @ '' => width: '' @ elWidth @ '' | height: '' @ elHeight @
     [newline] @ spaces 10"

definition updateDimensions :: "host \<Rightarrow> node \<Rightarrow> node \<Rightarrow> string \<Rightarrow> page \<Rightarrow> page" where
  "updateDimensions h el resultsBloc sel p =
     (let vpWidth = innerWidth p;
          vpHeight = innerHeight p;
          rect = rects p el;
          elWidth = toFixed h 2 (width rect) @ '' px'';
          elHeight = toFixed h 2 (height rect) @ '' px''
      in set_innerHTML resultsBloc
           (dimensions_markup sel (long_toString vpWidth) (long_toString vpHeight) elWidth elHeight)
           (logged [ReadViewport, GetBoundingClientRect el] p))"

definition run_callback :: "host \<Rightarrow> callback \<Rightarrow> page \<Rightarrow> page" where
  "run_callback h cb p =
     (case cb of UpdateDimensions el resultsBloc sel \<Rightarrow> updateDimensions h el resultsBloc sel p)"

definition not_present_message :: "string \<Rightarrow> string" where
  "not_present_message sel =
     ''Element not present for selector: '' @ [CHR 0x22] @ sel @ [CHR 0x22]"

text \<open>
  The parameter list and the first statement,
  \<^verbatim>\<open>function showElementDimensions(options = {})\<close> and
  \<^verbatim>\<open>const { selector = "body", color = "#989898" } = options\<close>: an omitted argument is
  the empty object, and an absent property takes its default.
\<close>

definition destructure :: "options option \<Rightarrow> string \<times> string" where
  "destructure arg =
     (let opts = (case arg of None \<Rightarrow> \<lparr>selector = None, color = None\<rparr> | Some v \<Rightarrow> v)
      in (case selector opts of None \<Rightarrow> ''body'' | Some s \<Rightarrow> s,
          case options.color opts of None \<Rightarrow> ''#989898'' | Some c \<Rightarrow> c))"

text \<open>
  The function returns nothing; its result here is the page it leaves, or the exception
  that leaves it. On a document that has a body, which is what a \<open>page\<close> is, the only call
  that can throw is \<^verbatim>\<open>document.querySelector\<close>, and no \<^verbatim>\<open>try\<close> surrounds it. A
  document without a body is not a \<open>page\<close>: there \<^verbatim>\<open>document.body.appendChild\<close> would
  throw as well, and nothing below speaks of such a document.
\<close>

definition showElementDimensions :: "host \<Rightarrow> options option \<Rightarrow> page \<Rightarrow> js_error + page" where
  "showElementDimensions h arg p0 =
     (let (sel, col) = destructure arg
      in case querySelector h sel p0 of
           Inl e \<Rightarrow> Inl e
         | Inr (found, p1) \<Rightarrow>
             (let (resultsBloc, p2) = createElement ''div'' p1;
                  p3 = set_className resultsBloc ''sizing-results-bloc'' p2;
                  p4 = assign_style resultsBloc (\<lambda>s. s\<lparr>position := ''fixed''\<rparr>) p3;
                  p5 = assign_style resultsBloc (\<lambda>s. s\<lparr>top := ''10px''\<rparr>) p4;
                  p6 = assign_style resultsBloc (\<lambda>s. s\<lparr>left := ''50%''\<rparr>) p5;
                  p7 = assign_style resultsBloc (\<lambda>s. s\<lparr>transform := ''translateX(-50%)''\<rparr>) p6;
                  p8 = assign_style resultsBloc (\<lambda>s. s\<lparr>zIndex := ''9999''\<rparr>) p7;
                  p9 = assign_style resultsBloc (\<lambda>s. s\<lparr>border := ''2px solid '' @ col\<rparr>) p8;
                  p10 = assign_style resultsBloc (\<lambda>s. s\<lparr>css.color := col\<rparr>) p9;
                  p11 = assign_style resultsBloc (\<lambda>s. s\<lparr>fontWeight := ''bold''\<rparr>) p10;
                  p12 = assign_style resultsBloc (\<lambda>s. s\<lparr>backgroundColor := ''#fff8dc''\<rparr>) p11;
                  p13 = assign_style resultsBloc (\<lambda>s. s\<lparr>padding := ''5px 10px''\<rparr>) p12;
                  p14 = assign_style resultsBloc (\<lambda>s. s\<lparr>margin := ''0''\<rparr>) p13;
                  p15 = assign_style resultsBloc (\<lambda>s. s\<lparr>display := ''inline-block''\<rparr>) p14;
                  p16 = assign_style resultsBloc
                          (\<lambda>s. s\<lparr>boxShadow := ''0 2px 5px rgba(0,0,0,0.2)''\<rparr>) p15
              in (case found of
                    None \<Rightarrow>
                      Inr (appendChild resultsBloc
                             (set_textContent resultsBloc (not_present_message sel) p16))
                  | Some el \<Rightarrow>
                      (let p17 = appendChild resultsBloc p16;
                           p18 = updateDimensions h el resultsBloc sel p17;
                           cb = UpdateDimensions el resultsBloc sel;
                           p19 = (if hasResizeObserver p18 then
                                    (let (resizeObserver, q) = newResizeObserver cb p18
                                     in observe resizeObserver el q)
                                  else p18)
                       in Inr (addEventListener cb p19)))))"

text \<open>
  The host's side of a viewport resize: the window takes its new size, then every listener
  of the \<^verbatim>\<open>resize\<close> event runs, in registration order.
\<close>

definition window_resize :: "host \<Rightarrow> 32 word \<Rightarrow> 32 word \<Rightarrow> page \<Rightarrow> page" where
  "window_resize h w ht p =
     fold (run_callback h) (resizeListeners p) (p\<lparr>innerWidth := w, innerHeight := ht\<rparr>)"

section \<open>An example host: the demonstration page\<close>

text \<open>
  The page that ships with the function: a body holding \<^verbatim>\<open>div.maincontent\<close>,
  \<^verbatim>\<open>div.maincontent_alt\<close> and the script. Its selector engine knows the two forms the
  function's own description names, a tag name and a class selector, and rejects every
  other string; the empty string is not a selector in any engine. Its \<open>numberToString\<close>
  gives \<^verbatim>\<open>1e+21\<close>, which is what \<^verbatim>\<open>Number::toString\<close> gives for \<open>10^21\<close>, the only
  size of that magnitude in the examples.
\<close>

definition ident :: "string \<Rightarrow> bool" where
  "ident s = (s \<noteq> [] \<and> list_all (\<lambda>c. c \<in> set ''abcdefghijklmnopqrstuvwxyz_-'') s)"

definition demo_matchAll :: "page \<Rightarrow> string \<Rightarrow> node list option" where
  "demo_matchAll p sel =
     (case sel of
        [] \<Rightarrow> None
      | c # cs \<Rightarrow>
          if c = CHR ''.'' then
            (if ident cs then
               Some (filter (\<lambda>n. n < length (elems p) \<and> className (elems p ! n) = cs)
                      (0 # body p))
             else None)
          else if ident sel then
            Some (filter (\<lambda>n. n < length (elems p) \<and> localName (elems p ! n) = sel)
                   (0 # body p))
          else None)"

definition demo_host :: host where
  "demo_host = \<lparr>matchAll = demo_matchAll, numberToString = (\<lambda>_. ''1e+21'')\<rparr>"

definition plain :: "string \<Rightarrow> string \<Rightarrow> element" where
  "plain name cls =
     \<lparr>localName = name, className = cls, style = empty_style, content = Text []\<rparr>"

definition demo_rects :: "node \<Rightarrow> rect" where
  "demo_rects n =
     (if n = 0 then \<lparr>width = 1280, height = 296\<rparr>
      else if n = 1 then \<lparr>width = 1200, height = 801 / 4\<rparr>
      else if n = 2 then \<lparr>width = 2401 / 2, height = 200\<rparr>
      else \<lparr>width = 0, height = 0\<rparr>)"

definition demo_page :: page where
  "demo_page =
     \<lparr>elems = [plain ''body'' [], plain ''div'' ''maincontent'',
               plain ''div'' ''maincontent_alt'', plain ''script'' []],
      body = [1, 2, 3], innerWidth = 1280, innerHeight = 720, rects = demo_rects,
      hasResizeObserver = True, observers = [], resizeListeners = [], trace = []\<rparr>"

text \<open>The same page with the first \<^verbatim>\<open>div\<close> scaled to a width of \<open>10^21\<close> pixels.\<close>

definition wide_page :: page where
  "wide_page =
     demo_page\<lparr>rects := (\<lambda>n. if n = 1 then \<lparr>width = 10 ^ 21, height = 801 / 4\<rparr>
                            else demo_rects n)\<rparr>"

section \<open>Closed forms used in the statements\<close>

text \<open>What lines 21 to 38 leave in the new element, for the resolved colour \<open>col\<close>.\<close>

definition overlay_style :: "string \<Rightarrow> css" where
  "overlay_style col =
     \<lparr>position = ''fixed'', top = ''10px'', left = ''50%'', transform = ''translateX(-50%)'',
      zIndex = ''9999'', border = ''2px solid '' @ col, color = col, fontWeight = ''bold'',
      backgroundColor = ''#fff8dc'', padding = ''5px 10px'', margin = ''0'',
      display = ''inline-block'', boxShadow = ''0 2px 5px rgba(0,0,0,0.2)''\<rparr>"

definition overlay :: "string \<Rightarrow> content \<Rightarrow> element" where
  "overlay col c =
     \<lparr>localName = ''div'', className = ''sizing-results-bloc'', style = overlay_style col,
      content = c\<rparr>"

text \<open>The markup one run of \<^verbatim>\<open>updateDimensions\<close> computes from the layout of page \<open>p\<close>.\<close>

definition rendered :: "host \<Rightarrow> string \<Rightarrow> node \<Rightarrow> page \<Rightarrow> string" where
  "rendered h sel el p =
     dimensions_markup sel (long_toString (innerWidth p)) (long_toString (innerHeight p))
       (toFixed h 2 (width (rects p el)) @ '' px'') (toFixed h 2 (height (rects p el)) @ '' px'')"

text \<open>
  A number written with exactly two decimal places, as the specification words it: the sign,
  the digits of the integer part, a point, and two digits, for the hundredth nearest to the
  number. This definition is not taken from the code; \<open>toFixed\<close> is compared with it.
\<close>

definition two_decimals :: "rat \<Rightarrow> string" where
  "two_decimals x =
     (let n = nat \<lfloor>\<bar>x\<bar> * 100 + 1 / 2\<rfloor>
      in (if x < 0 then ''-'' else []) @ decimal (n div 100) @ ''.'' @
         [digit_char (n div 10 mod 10), digit_char (n mod 10)])"

text \<open>
  A size as the render operation writes it, in the words of the amended claim C3: with two
  decimal places below \<open>10^21\<close> in magnitude, and from there on the sign and the exponent
  notation the host gives. This definition is not taken from the code either.
\<close>

definition size_text :: "host \<Rightarrow> rat \<Rightarrow> string" where
  "size_text h x =
     (if \<bar>x\<bar> < 10 ^ 21 then two_decimals x
      else (if x < 0 then ''-'' else []) @ numberToString h \<bar>x\<bar>)"

section \<open>Evaluating numbers and the example page\<close>

lemma digit_char_values:
  "digit_char 0 = CHR ''0''" "digit_char 1 = CHR ''1''" "digit_char 2 = CHR ''2''"
  "digit_char 3 = CHR ''3''" "digit_char 4 = CHR ''4''" "digit_char 5 = CHR ''5''"
  "digit_char 6 = CHR ''6''" "digit_char 7 = CHR ''7''" "digit_char 8 = CHR ''8''"
  "digit_char 9 = CHR ''9''" "digit_char (Suc 0) = CHR ''1''"
  by code_simp+

lemma floor_rat_numeral: "\<lfloor>(numeral a :: rat) / numeral b\<rfloor> = numeral a div numeral b"
  using floor_divide_of_int_eq [of "numeral a" "numeral b", where ?'a = rat] by simp

lemma decimal_small: "n < 10 \<Longrightarrow> decimal n = [digit_char n]"
  by (simp add: decimal.simps)

lemma decimal_large: "10 \<le> n \<Longrightarrow> decimal n = decimal (n div 10) @ [digit_char (n mod 10)]"
  by (subst decimal.simps) simp

lemma length_decimal: "0 < length (decimal n)"
  by (subst decimal.simps) simp

lemmas eval_numbers = decimal.simps digit_char_values floor_rat_numeral

lemmas eval_demo = demo_host_def demo_matchAll_def demo_page_def demo_rects_def ident_def plain_def

lemma demo_fields:
  "length (elems demo_page) = 4" "body demo_page = [1, 2, 3]"
  "innerWidth demo_page = 1280" "innerHeight demo_page = 720" "rects demo_page = demo_rects"
  "hasResizeObserver demo_page = True" "observers demo_page = []"
  "resizeListeners demo_page = []" "trace demo_page = []"
  by (simp_all add: demo_page_def)

lemma demo_lookup:
  "matchAll demo_host demo_page ''.maincontent'' = Some [1]"
  "matchAll demo_host demo_page ''main'' = Some []"
  "matchAll demo_host demo_page ''body'' = Some [0]"
  "matchAll demo_host demo_page [] = None"
  by (simp_all add: eval_demo)

lemma wide_lookup: "matchAll demo_host wide_page ''.maincontent'' = Some [1]"
  by (simp add: wide_page_def eval_demo)

lemma demo_numbers:
  "long_toString 1280 = ''1280''" "long_toString 720 = ''720''"
  "long_toString 800 = ''800''" "long_toString 600 = ''600''"
  "toFixed demo_host 2 1200 = ''1200.00''" "toFixed demo_host 2 (801 / 4) = ''200.25''"
  "toFixed demo_host 2 1280 = ''1280.00''" "toFixed demo_host 2 296 = ''296.00''"
  "two_decimals 1200 = ''1200.00''" "two_decimals (801 / 4) = ''200.25''"
  by (simp_all add: long_toString_def toFixed_def two_decimals_def Let_def eval_numbers)

lemma demo_rects_values:
  "demo_rects 0 = \<lparr>width = 1280, height = 296\<rparr>"
  "demo_rects 1 = \<lparr>width = 1200, height = 801 / 4\<rparr>"
  "demo_rects (Suc 0) = \<lparr>width = 1200, height = 801 / 4\<rparr>"
  by (simp_all add: demo_rects_def)

lemmas demo_eval = demo_fields demo_numbers demo_rects_values rendered_def

section \<open>toFixed(2) writes two decimal places\<close>

lemma place_point:
  "(let m = decimal n; k = length m;
        m' = (if k \<le> 2 then replicate (3 - k) (CHR ''0'') @ m else m);
        k' = length m'
    in take (k' - 2) m' @ ''.'' @ drop (k' - 2) m') =
   decimal (n div 100) @ ''.'' @ [digit_char (n div 10 mod 10), digit_char (n mod 10)]"
proof -
  consider "n < 10" | "10 \<le> n" "n < 100" | "100 \<le> n" by linarith
  then show ?thesis
  proof cases
    case 1
    then show ?thesis
      by (simp add: decimal_small digit_char_values numeral_3_eq_3 numeral_2_eq_2)
  next
    case 2
    then have "n div 10 < 10" by simp
    with 2 show ?thesis
      by (simp add: decimal_large decimal_small digit_char_values Let_def)
  next
    case 3
    then have a: "10 \<le> n" and b: "10 \<le> n div 10" by simp_all
    have c: "n div 10 div 10 = n div 100" by (simp add: div_mult2_eq)
    have d: "decimal n =
               decimal (n div 100) @ [digit_char (n div 10 mod 10), digit_char (n mod 10)]"
      using decimal_large [OF a] decimal_large [OF b] c by simp
    show ?thesis
      using length_decimal [of "n div 100"] by (simp add: d Let_def)
  qed
qed

lemma toFixed_two_decimals:
  assumes "\<bar>x\<bar> < 10 ^ 21"
  shows "toFixed h 2 x = two_decimals x"
proof -
  have "\<not> 10 ^ 21 \<le> \<bar>x\<bar>" using assms by simp
  then show ?thesis
    using place_point [of "nat \<lfloor>\<bar>x\<bar> * 100 + 1 / 2\<rfloor>"]
    by (simp add: toFixed_def two_decimals_def Let_def abs_if split: if_splits)
qed

lemma toFixed_size_text: "toFixed h 2 x = size_text h x"
proof (cases "\<bar>x\<bar> < 10 ^ 21")
  case True
  then show ?thesis by (simp add: size_text_def toFixed_two_decimals)
next
  case False
  then show ?thesis by (simp add: size_text_def toFixed_def abs_if Let_def)
qed

section \<open>How the host operations compose\<close>

lemma logged_fields [simp]:
  "elems (logged es p) = elems p" "body (logged es p) = body p"
  "innerWidth (logged es p) = innerWidth p" "innerHeight (logged es p) = innerHeight p"
  "rects (logged es p) = rects p" "hasResizeObserver (logged es p) = hasResizeObserver p"
  "observers (logged es p) = observers p" "resizeListeners (logged es p) = resizeListeners p"
  "trace (logged es p) = trace p @ es"
  by (simp_all add: logged_def)

lemma logged_logged [simp]: "logged es (logged es' p) = logged (es' @ es) p"
  by (simp add: logged_def)

lemma logged_out [simp]:
  "(logged es p)\<lparr>elems := xs\<rparr> = logged es (p\<lparr>elems := xs\<rparr>)"
  "(logged es p)\<lparr>body := b\<rparr> = logged es (p\<lparr>body := b\<rparr>)"
  "(logged es p)\<lparr>observers := os\<rparr> = logged es (p\<lparr>observers := os\<rparr>)"
  "(logged es p)\<lparr>resizeListeners := ls\<rparr> = logged es (p\<lparr>resizeListeners := ls\<rparr>)"
  by (simp_all add: logged_def)

lemma modify_logged [simp]: "modify n f (logged es p) = logged es (modify n f p)"
  by (simp add: modify_def logged_def)

lemma modify_new [simp]:
  "modify (length xs) f (p\<lparr>elems := xs @ [e]\<rparr>) = p\<lparr>elems := xs @ [f e]\<rparr>"
  by (simp add: modify_def)

lemma modify_body [simp]: "modify n f (p\<lparr>body := b\<rparr>) = (modify n f p)\<lparr>body := b\<rparr>"
  by (simp add: modify_def)

lemma updateDimensions_eq:
  "updateDimensions h el b sel p =
     logged [ReadViewport, GetBoundingClientRect el, SetInnerHTML b]
       (modify b (\<lambda>e. e\<lparr>content := Markup (rendered h sel el p)\<rparr>) p)"
  by (simp add: updateDimensions_def rendered_def set_innerHTML_def Let_def)

lemma updateDimensions_frame [simp]:
  "body (updateDimensions h el b sel p) = body p"
  "innerWidth (updateDimensions h el b sel p) = innerWidth p"
  "innerHeight (updateDimensions h el b sel p) = innerHeight p"
  "rects (updateDimensions h el b sel p) = rects p"
  "hasResizeObserver (updateDimensions h el b sel p) = hasResizeObserver p"
  "observers (updateDimensions h el b sel p) = observers p"
  "resizeListeners (updateDimensions h el b sel p) = resizeListeners p"
  "length (elems (updateDimensions h el b sel p)) = length (elems p)"
  "trace (updateDimensions h el b sel p) =
     trace p @ [ReadViewport, GetBoundingClientRect el, SetInnerHTML b]"
  by (simp_all add: updateDimensions_eq modify_def)

lemma updateDimensions_other:
  "n \<noteq> b \<Longrightarrow> elems (updateDimensions h el b sel p) ! n = elems p ! n"
  by (simp add: updateDimensions_eq modify_def)

lemma updateDimensions_self:
  "b < length (elems p) \<Longrightarrow>
   elems (updateDimensions h el b sel p) ! b =
     (elems p ! b)\<lparr>content := Markup (rendered h sel el p)\<rparr>"
  by (simp add: updateDimensions_eq modify_def)

lemma run_callback_simp [simp]:
  "run_callback h (UpdateDimensions el b sel) p = updateDimensions h el b sel p"
  by (simp add: run_callback_def)

text \<open>Whatever listeners run, the viewport, the layout and the number of elements stay.\<close>

lemma fold_callbacks_frame:
  "innerWidth (fold (run_callback h) cbs p) = innerWidth p \<and>
   innerHeight (fold (run_callback h) cbs p) = innerHeight p \<and>
   rects (fold (run_callback h) cbs p) = rects p \<and>
   length (elems (fold (run_callback h) cbs p)) = length (elems p)"
proof (induction cbs arbitrary: p)
  case Nil
  show ?case by simp
next
  case (Cons cb cbs)
  show ?case by (cases cb) (simp add: Cons.IH)
qed

section \<open>The three ways a call ends\<close>

lemma show_rejected:
  assumes "destructure arg = (sel, col)" and "matchAll h p sel = None"
  shows "showElementDimensions h arg p = Inl SyntaxError"
  using assms by (simp add: showElementDimensions_def querySelector_def)

lemma show_missing:
  assumes "destructure arg = (sel, col)" and "matchAll h p sel = Some []"
  shows "showElementDimensions h arg p =
           Inr (p\<lparr>elems := elems p @ [overlay col (Text (not_present_message sel))],
                  body := removeAll (length (elems p)) (body p) @ [length (elems p)],
                  trace := trace p @
                    [QuerySelector sel, CreateElement (length (elems p)),
                     SetTextContent (length (elems p)), AppendChild (length (elems p))]\<rparr>)"
  using assms
  apply (simp add: showElementDimensions_def querySelector_def createElement_def
      set_className_def assign_style_def set_textContent_def appendChild_def Let_def)
  apply (simp add: logged_def overlay_def overlay_style_def empty_style_def)
  done

lemma show_found:
  assumes "destructure arg = (sel, col)" and "matchAll h p sel = Some (el # others)"
  shows "showElementDimensions h arg p =
           Inr (p\<lparr>elems := elems p @ [overlay col (Markup (rendered h sel el p))],
                  body := removeAll (length (elems p)) (body p) @ [length (elems p)],
                  observers :=
                    (if hasResizeObserver p then
                       observers p @ [(UpdateDimensions el (length (elems p)) sel, [el])]
                     else observers p),
                  resizeListeners :=
                    resizeListeners p @ [UpdateDimensions el (length (elems p)) sel],
                  trace := trace p @
                    [QuerySelector sel, CreateElement (length (elems p)),
                     AppendChild (length (elems p)), ReadViewport, GetBoundingClientRect el,
                     SetInnerHTML (length (elems p))] @
                    (if hasResizeObserver p then
                       [NewResizeObserver (length (observers p)),
                        Observe (length (observers p)) el]
                     else []) @
                    [AddEventListener (UpdateDimensions el (length (elems p)) sel)]\<rparr>)"
  using assms
  apply (simp add: showElementDimensions_def querySelector_def createElement_def
      set_className_def assign_style_def appendChild_def updateDimensions_eq
      newResizeObserver_def observe_def addEventListener_def Let_def)
  apply (simp add: logged_def overlay_def overlay_style_def empty_style_def rendered_def)
  done

lemma show_returns:
  assumes "destructure arg = (sel, col)" and "showElementDimensions h arg p = Inr p'"
  shows "\<exists>c. elems p' = elems p @ [overlay col c]"
    and "body p' = removeAll (length (elems p)) (body p) @ [length (elems p)]"
proof -
  have "(\<exists>c. elems p' = elems p @ [overlay col c]) \<and>
        body p' = removeAll (length (elems p)) (body p) @ [length (elems p)]"
  proof (cases "matchAll h p sel")
    case None
    then show ?thesis using show_rejected [OF assms(1)] assms(2) by simp
  next
    case (Some ns)
    show ?thesis
    proof (cases ns)
      case Nil
      with Some show ?thesis using show_missing [OF assms(1), of h p] assms(2) by auto
    next
      case (Cons el others)
      with Some show ?thesis using show_found [OF assms(1), of h p el others] assms(2) by auto
    qed
  qed
  then show "\<exists>c. elems p' = elems p @ [overlay col c]"
    and "body p' = removeAll (length (elems p)) (body p) @ [length (elems p)]" by simp_all
qed

lemma destructure_values:
  "destructure None = (''body'', ''#989898'')"
  "destructure (Some \<lparr>selector = s, color = c\<rparr>) =
     (case s of None \<Rightarrow> ''body'' | Some x \<Rightarrow> x, case c of None \<Rightarrow> ''#989898'' | Some y \<Rightarrow> y)"
  by (simp_all add: destructure_def)

section \<open>Defaults\<close>

text \<open>
  Claim C4. A call with an empty configuration, whether the argument is omitted or is an
  object with no property, resolves the selector to \<open>body\<close> and the colour to \<open>#989898\<close>,
  and from there on runs exactly as the call that names both values.
\<close>

theorem empty_configuration_defaults:
  "destructure None = (''body'', ''#989898'') \<and>
   destructure (Some \<lparr>selector = None, color = None\<rparr>) = (''body'', ''#989898'') \<and>
   showElementDimensions h None p =
     showElementDimensions h (Some \<lparr>selector = Some ''body'', color = Some ''#989898''\<rparr>) p \<and>
   showElementDimensions h (Some \<lparr>selector = None, color = None\<rparr>) p =
     showElementDimensions h (Some \<lparr>selector = Some ''body'', color = Some ''#989898''\<rparr>) p"
  by (simp add: destructure_def showElementDimensions_def)

section \<open>When the call returns and when it throws\<close>




section \<open>The missing-element path\<close>

text \<open>
  Claim C2. When the resolved selector matches no element, the call returns; the new
  overlay's text is exactly \<^verbatim>\<open>Element not present for selector: "<selector>"\<close> with the
  selector as given; the overlay is the last child of the body; the observers and the
  resize listeners are the ones that were there before; and the calls made into the host
  are the lookup, the creation, the text assignment and the insertion, none of which reads
  the viewport or a bounding box. (A new node is not among the old children of the body, so
  \<open>removeAll\<close> leaves them as they are on any page whose children exist.)
\<close>

theorem missing_element_shows_message:
  assumes "destructure arg = (sel, col)" and "matchAll h p sel = Some []"
  shows "\<exists>p'. showElementDimensions h arg p = Inr p' \<and>
           content (elems p' ! length (elems p)) =
             Text (''Element not present for selector: '' @ [CHR 0x22] @ sel @ [CHR 0x22]) \<and>
           body p' = removeAll (length (elems p)) (body p) @ [length (elems p)] \<and>
           observers p' = observers p \<and>
           resizeListeners p' = resizeListeners p \<and>
           trace p' = trace p @
             [QuerySelector sel, CreateElement (length (elems p)),
              SetTextContent (length (elems p)), AppendChild (length (elems p))]"
  using show_missing [OF assms] by (simp add: overlay_def not_present_message_def)

theorem missing_element_shows_message_witness:
  "\<exists>p'. showElementDimensions demo_host (Some \<lparr>selector = Some ''main'', color = None\<rparr>)
          demo_page = Inr p' \<and>
        content (elems p' ! 4) =
          Text (''Element not present for selector: '' @ [CHR 0x22] @ ''main'' @ [CHR 0x22]) \<and>
        body p' = [1, 2, 3, 4] \<and> observers p' = [] \<and> resizeListeners p' = [] \<and>
        trace p' = [QuerySelector ''main'', CreateElement 4, SetTextContent 4, AppendChild 4]"
  using missing_element_shows_message [of "Some \<lparr>selector = Some ''main'', color = None\<rparr>"
      "''main''" "''#989898''" demo_host demo_page]
  by (simp add: destructure_values eval_demo eval_nat_numeral)

section \<open>The overlay's style\<close>

text \<open>
  Claim C7. Every call that returns has created exactly one element, a \<open>div\<close> of class
  \<open>sizing-results-bloc\<close>, whose inline style is: position fixed, 10px from the top, left
  50% with a translation by -50% of its own width, z-index 9999, a 2px solid border in the
  resolved colour, text in the resolved colour, bold, background #fff8dc (cornsilk),
  padding 5px 10px, margin 0, inline-block, and the box shadow 0 2px 5px rgba(0,0,0,0.2).
  The layering priority the specification speaks of is the z-index 9999.
\<close>

theorem overlay_visual_contract:
  assumes "destructure arg = (sel, col)" and "showElementDimensions h arg p = Inr p'"
  shows "length (elems p') = Suc (length (elems p)) \<and>
         localName (elems p' ! length (elems p)) = ''div'' \<and>
         className (elems p' ! length (elems p)) = ''sizing-results-bloc'' \<and>
         style (elems p' ! length (elems p)) =
           \<lparr>position = ''fixed'', top = ''10px'', left = ''50%'',
            transform = ''translateX(-50%)'', zIndex = ''9999'',
            border = ''2px solid '' @ col, color = col, fontWeight = ''bold'',
            backgroundColor = ''#fff8dc'', padding = ''5px 10px'', margin = ''0'',
            display = ''inline-block'', boxShadow = ''0 2px 5px rgba(0,0,0,0.2)''\<rparr>"
proof (cases "matchAll h p sel")
  case None
  then show ?thesis using show_rejected [OF assms(1)] assms(2) by simp
next
  case (Some ns)
  show ?thesis
  proof (cases ns)
    case Nil
    with Some show ?thesis
      using show_missing [OF assms(1), of h p] assms(2)
      by (auto simp: overlay_def overlay_style_def)
  next
    case (Cons el others)
    with Some show ?thesis
      using show_found [OF assms(1), of h p el others] assms(2)
      by (auto simp: overlay_def overlay_style_def)
  qed
qed

theorem overlay_visual_contract_witness:
  "\<exists>p'. showElementDimensions demo_host
          (Some \<lparr>selector = Some ''.maincontent'', color = Some ''green''\<rparr>) demo_page = Inr p' \<and>
        length (elems p') = 5 \<and> localName (elems p' ! 4) = ''div'' \<and>
        className (elems p' ! 4) = ''sizing-results-bloc'' \<and>
        style (elems p' ! 4) =
          \<lparr>position = ''fixed'', top = ''10px'', left = ''50%'',
           transform = ''translateX(-50%)'', zIndex = ''9999'',
           border = ''2px solid green'', color = ''green'', fontWeight = ''bold'',
           backgroundColor = ''#fff8dc'', padding = ''5px 10px'', margin = ''0'',
           display = ''inline-block'', boxShadow = ''0 2px 5px rgba(0,0,0,0.2)''\<rparr>"
proof -
  let ?a = "Some \<lparr>selector = Some ''.maincontent'', color = Some ''green''\<rparr>"
  have d: "destructure ?a = (''.maincontent'', ''green'')" by (simp add: destructure_values)
  obtain p' where s: "showElementDimensions demo_host ?a demo_page = Inr p'"
    using show_found [OF d demo_lookup(1)] by simp
  show ?thesis
    using overlay_visual_contract [OF d s] s by (simp add: demo_fields)
qed

text \<open>
  Claim C10. The class and the whole style are assigned before the result of the lookup is
  looked at. So the overlay of the missing-element path carries all of it: the tag
  \<open>div\<close>, the class \<open>sizing-results-bloc\<close>, position fixed at 10px from the top and
  left 50% with the translation by -50%, z-index 9999, the 2px solid border and the text in
  the resolved colour, bold, the background #fff8dc, padding 5px 10px, margin 0,
  inline-block and the box shadow. The overlay of the found-element path, for the same
  resolved colour, has the same tag, class and style, whatever the two pages and
  selectors are; the two differ in what they show.
\<close>

theorem error_overlay_styled_like_live_overlay:
  assumes "destructure a1 = (sel1, col)" and "matchAll h1 p sel1 = Some []"
    and "destructure a2 = (sel2, col)" and "matchAll h2 q sel2 = Some (el # others)"
  shows "\<exists>p' q'. showElementDimensions h1 a1 p = Inr p' \<and>
           showElementDimensions h2 a2 q = Inr q' \<and>
           localName (elems p' ! length (elems p)) = ''div'' \<and>
           localName (elems q' ! length (elems q)) = ''div'' \<and>
           className (elems p' ! length (elems p)) = ''sizing-results-bloc'' \<and>
           className (elems q' ! length (elems q)) = ''sizing-results-bloc'' \<and>
           style (elems p' ! length (elems p)) =
             \<lparr>position = ''fixed'', top = ''10px'', left = ''50%'',
              transform = ''translateX(-50%)'', zIndex = ''9999'',
              border = ''2px solid '' @ col, color = col, fontWeight = ''bold'',
              backgroundColor = ''#fff8dc'', padding = ''5px 10px'', margin = ''0'',
              display = ''inline-block'', boxShadow = ''0 2px 5px rgba(0,0,0,0.2)''\<rparr> \<and>
           style (elems q' ! length (elems q)) = style (elems p' ! length (elems p)) \<and>
           content (elems p' ! length (elems p)) = Text (not_present_message sel1) \<and>
           content (elems q' ! length (elems q)) = Markup (rendered h2 sel2 el q)"
  using show_missing [OF assms(1,2)] show_found [OF assms(3,4)]
  by (simp add: overlay_def overlay_style_def)

theorem error_overlay_styled_like_live_overlay_witness:
  "\<exists>p' q'. showElementDimensions demo_host (Some \<lparr>selector = Some ''main'', color = None\<rparr>)
             demo_page = Inr p' \<and>
           showElementDimensions demo_host
             (Some \<lparr>selector = Some ''.maincontent'', color = None\<rparr>) demo_page = Inr q' \<and>
           className (elems p' ! 4) = ''sizing-results-bloc'' \<and>
           className (elems q' ! 4) = ''sizing-results-bloc'' \<and>
           style (elems p' ! 4) =
             \<lparr>position = ''fixed'', top = ''10px'', left = ''50%'',
              transform = ''translateX(-50%)'', zIndex = ''9999'',
              border = ''2px solid #989898'', color = ''#989898'', fontWeight = ''bold'',
              backgroundColor = ''#fff8dc'', padding = ''5px 10px'', margin = ''0'',
              display = ''inline-block'', boxShadow = ''0 2px 5px rgba(0,0,0,0.2)''\<rparr> \<and>
           style (elems q' ! 4) = style (elems p' ! 4) \<and>
           content (elems p' ! 4) = Text (not_present_message ''main'') \<and>
           content (elems q' ! 4) =
             Markup (dimensions_markup ''.maincontent'' ''1280'' ''720'' ''1200.00 px''
                       ''200.25 px'')"
proof -
  have d1: "destructure (Some \<lparr>selector = Some ''main'', color = None\<rparr>) =
              (''main'', ''#989898'')" by (simp add: destructure_values)
  have d2: "destructure (Some \<lparr>selector = Some ''.maincontent'', color = None\<rparr>) =
              (''.maincontent'', ''#989898'')" by (simp add: destructure_values)
  show ?thesis
    using error_overlay_styled_like_live_overlay [OF d1 demo_lookup(2) d2 demo_lookup(1)]
    by (auto simp: demo_eval)
qed

section \<open>The render operation\<close>

text \<open>
  Claim C3, as amended. After a call whose selector matched, the render operation it
  registered is the closure over the element found, the new overlay and the selector string
  the caller gave. Whenever it runs, on a page \<open>q\<close> that still has the overlay, it leaves
  in the overlay the markup of two lines separated by \<^verbatim>\<open><br>\<close>: the first is
  \<^verbatim>\<open>Viewport => width: <w>px | height: <h>px\<close> with the viewport of \<open>q\<close>, the second is
  \<^verbatim>\<open><selector> => width: <W> px | height: <H> px\<close> with that same selector string and
  with the bounding box of the element in \<open>q\<close>. A size below \<open>10^21\<close> in magnitude is
  written with exactly two decimal places; a size of \<open>10^21\<close> or more is written in the
  exponent notation of \<^verbatim>\<open>Number::toString\<close>; the unit suffix follows in both cases. The
  statement is about the markup assigned to \<^verbatim>\<open>innerHTML\<close>, in which the selector stands
  as it was given.
\<close>

theorem render_writes_two_lines:
  assumes "destructure arg = (sel, col)" and "matchAll h p sel = Some (el # others)"
    and "showElementDimensions h arg p = Inr p'"
    and "length (elems p) < length (elems q)"
  shows "last (resizeListeners p') = UpdateDimensions el (length (elems p)) sel \<and>
         content (elems (run_callback h (last (resizeListeners p')) q) ! length (elems p)) =
           Markup
             ([newline] @ spaces 12 @ ''Viewport => width: '' @ long_toString (innerWidth q) @
                ''px | height: '' @ long_toString (innerHeight q) @ ''px'' @
              [newline] @ spaces 12 @ ''<br>'' @
              [newline] @ spaces 12 @ sel @ '' => width: '' @
                size_text h (width (rects q el)) @ '' px | height: '' @
                size_text h (height (rects q el)) @ '' px'' @
              [newline] @ spaces 10) \<and>
         (\<bar>width (rects q el)\<bar> < 10 ^ 21 \<longrightarrow>
            size_text h (width (rects q el)) = two_decimals (width (rects q el))) \<and>
         (\<bar>height (rects q el)\<bar> < 10 ^ 21 \<longrightarrow>
            size_text h (height (rects q el)) = two_decimals (height (rects q el)))"
proof -
  have l: "last (resizeListeners p') = UpdateDimensions el (length (elems p)) sel"
    using show_found [OF assms(1,2)] assms(3) by auto
  have "content (elems (updateDimensions h el (length (elems p)) sel q) ! length (elems p)) =
          Markup (rendered h sel el q)"
    using assms(4) by (simp add: updateDimensions_self)
  then show ?thesis
    using l by (simp add: rendered_def dimensions_markup_def toFixed_size_text size_text_def)
qed

theorem render_writes_two_lines_witness:
  "\<exists>p'. showElementDimensions demo_host
          (Some \<lparr>selector = Some ''.maincontent'', color = None\<rparr>) demo_page = Inr p' \<and>
        last (resizeListeners p') = UpdateDimensions 1 4 ''.maincontent'' \<and>
        content (elems (run_callback demo_host (last (resizeListeners p')) p') ! 4) =
          Markup (dimensions_markup ''.maincontent'' ''1280'' ''720'' ''1200.00 px''
                    ''200.25 px'') \<and>
        size_text demo_host (width (rects p' 1)) = ''1200.00'' \<and>
        size_text demo_host (height (rects p' 1)) = ''200.25''"
proof -
  let ?a = "Some \<lparr>selector = Some ''.maincontent'', color = None\<rparr>"
  have d: "destructure ?a = (''.maincontent'', ''#989898'')" by (simp add: destructure_values)
  obtain p' where s: "showElementDimensions demo_host ?a demo_page = Inr p'"
    and f: "length (elems p') = 5" "rects p' = demo_rects" "innerWidth p' = 1280"
      "innerHeight p' = 720"
    using show_found [OF d demo_lookup(1)] by (simp add: demo_fields)
  have l: "length (elems demo_page) < length (elems p')" by (simp add: f demo_fields)
  have w: "\<bar>width (rects p' 1)\<bar> < 10 ^ 21" "\<bar>height (rects p' 1)\<bar> < 10 ^ 21"
    by (simp_all add: f demo_rects_values)
  show ?thesis
    using render_writes_two_lines [OF d demo_lookup(1) s l] s w
    by (auto simp: f demo_eval dimensions_markup_def)
qed

text \<open>
  The claim as the specification states it, two decimal places for every bounding box, fails
  for an element \<open>10^21\<close> pixels wide: the overlay shows \<^verbatim>\<open>width: 1e+21 px\<close>, where two
  decimal places would be the digits below.
\<close>

theorem huge_size_leaves_fixed_notation:
  "(case showElementDimensions demo_host
           (Some \<lparr>selector = Some ''.maincontent'', color = None\<rparr>) wide_page of
      Inl e \<Rightarrow> None
    | Inr p' \<Rightarrow> Some (content (elems p' ! 4))) =
     Some (Markup (dimensions_markup ''.maincontent'' ''1280'' ''720'' ''1e+21 px''
                     ''200.25 px'')) \<and>
   two_decimals (width (rects wide_page 1)) = ''1000000000000000000000.00''"
proof -
  have d: "destructure (Some \<lparr>selector = Some ''.maincontent'', color = None\<rparr>) =
             (''.maincontent'', ''#989898'')" by (simp add: destructure_values)
  have t: "toFixed demo_host 2 1000000000000000000000 = ''1e+21''"
    by (simp add: toFixed_def demo_host_def)
  have n: "length (elems wide_page) = 4" "innerWidth wide_page = 1280"
    "innerHeight wide_page = 720"
    by (simp_all add: wide_page_def demo_fields)
  have r: "rects wide_page 1 = \<lparr>width = 10 ^ 21, height = 801 / 4\<rparr>"
    "rects wide_page (Suc 0) = \<lparr>width = 10 ^ 21, height = 801 / 4\<rparr>"
    by (simp_all add: wide_page_def)
  have a: "(case showElementDimensions demo_host
           (Some \<lparr>selector = Some ''.maincontent'', color = None\<rparr>) wide_page of
      Inl e \<Rightarrow> None
    | Inr p' \<Rightarrow> Some (content (elems p' ! 4))) =
     Some (Markup (dimensions_markup ''.maincontent'' ''1280'' ''720'' ''1e+21 px''
                     ''200.25 px''))"
    by (simp add: show_found [OF d wide_lookup] n r t overlay_def rendered_def demo_numbers
        nth_append)
  have b: "two_decimals (width (rects wide_page 1)) = ''1000000000000000000000.00''"
    by (simp add: r two_decimals_def eval_numbers)
  from a b show ?thesis by simp
qed

text \<open>
  Claim C9. One run of the render operation changes the content of the overlay and nothing
  else: the body's children, the viewport, the layout, the observers and the listeners are
  as before, every other element (the target among them) is as before, and the overlay
  keeps its tag, its class and its style. What it reads, the viewport and the bounding box
  of the target, is what it adds to the record of host calls, with the one write.
\<close>

theorem render_changes_only_overlay_content:
  assumes "p' = updateDimensions h el b sel p"
  shows "body p' = body p \<and> innerWidth p' = innerWidth p \<and> innerHeight p' = innerHeight p \<and>
         rects p' = rects p \<and> hasResizeObserver p' = hasResizeObserver p \<and>
         observers p' = observers p \<and> resizeListeners p' = resizeListeners p \<and>
         length (elems p') = length (elems p) \<and>
         (\<forall>n. n \<noteq> b \<longrightarrow> elems p' ! n = elems p ! n) \<and>
         (b < length (elems p) \<longrightarrow>
            localName (elems p' ! b) = localName (elems p ! b) \<and>
            className (elems p' ! b) = className (elems p ! b) \<and>
            style (elems p' ! b) = style (elems p ! b) \<and>
            content (elems p' ! b) = Markup (rendered h sel el p)) \<and>
         trace p' = trace p @ [ReadViewport, GetBoundingClientRect el, SetInnerHTML b]"
  using assms by (simp add: updateDimensions_other updateDimensions_self)

theorem render_changes_only_overlay_content_witness:
  "\<exists>p1 p'. showElementDimensions demo_host
             (Some \<lparr>selector = Some ''.maincontent'', color = None\<rparr>) demo_page = Inr p1 \<and>
           p' = updateDimensions demo_host 1 4 ''.maincontent'' (p1\<lparr>innerWidth := 800\<rparr>) \<and>
           body p' = [1, 2, 3, 4] \<and> innerWidth p' = 800 \<and> rects p' = demo_rects \<and>
           length (elems p') = 5 \<and> elems p' ! 1 = elems p1 ! 1 \<and>
           style (elems p' ! 4) = style (elems p1 ! 4) \<and>
           content (elems p' ! 4) =
             Markup (dimensions_markup ''.maincontent'' ''800'' ''720'' ''1200.00 px''
                       ''200.25 px'')"
proof -
  let ?a = "Some \<lparr>selector = Some ''.maincontent'', color = None\<rparr>"
  have d: "destructure ?a = (''.maincontent'', ''#989898'')" by (simp add: destructure_values)
  obtain p1 where s: "showElementDimensions demo_host ?a demo_page = Inr p1"
    and f: "length (elems p1) = 5" "body p1 = [1, 2, 3, 4]" "rects p1 = demo_rects"
      "innerHeight p1 = 720"
    using show_found [OF d demo_lookup(1)] by (simp add: demo_fields)
  define p' where "p' = updateDimensions demo_host 1 4 ''.maincontent'' (p1\<lparr>innerWidth := 800\<rparr>)"
  have "body p' = [1, 2, 3, 4] \<and> innerWidth p' = 800 \<and> rects p' = demo_rects \<and>
        length (elems p') = 5 \<and> elems p' ! 1 = elems p1 ! 1 \<and>
        style (elems p' ! 4) = style (elems p1 ! 4) \<and>
        content (elems p' ! 4) =
          Markup (dimensions_markup ''.maincontent'' ''800'' ''720'' ''1200.00 px''
                    ''200.25 px'')"
    using render_changes_only_overlay_content [OF p'_def] by (simp add: f demo_eval)
  with s p'_def show ?thesis by blast
qed

section \<open>The found-element path\<close>

text \<open>
  Claim C6. When the selector matches, the call appends the overlay to the body and then
  runs the render operation once, before any observer or listener is installed: the record
  of host calls is the lookup, the creation, the insertion, then the two reads and the one
  write of a render, and only then the subscriptions. At return the overlay shows the
  viewport and the bounding box of the page as it was at the call.
\<close>

theorem found_path_renders_once_before_binding:
  assumes "destructure arg = (sel, col)" and "matchAll h p sel = Some (el # others)"
  shows "\<exists>p'. showElementDimensions h arg p = Inr p' \<and>
           body p' = removeAll (length (elems p)) (body p) @ [length (elems p)] \<and>
           content (elems p' ! length (elems p)) = Markup (rendered h sel el p) \<and>
           trace p' = trace p @
             [QuerySelector sel, CreateElement (length (elems p)),
              AppendChild (length (elems p)),
              ReadViewport, GetBoundingClientRect el, SetInnerHTML (length (elems p))] @
             (if hasResizeObserver p then
                [NewResizeObserver (length (observers p)), Observe (length (observers p)) el]
              else []) @
             [AddEventListener (UpdateDimensions el (length (elems p)) sel)] \<and>
           length (filter (\<lambda>e. e = SetInnerHTML (length (elems p)))
                     (drop (length (trace p)) (trace p'))) = 1"
  using show_found [OF assms] by (simp add: overlay_def)

theorem found_path_renders_once_before_binding_witness:
  "\<exists>p'. showElementDimensions demo_host
          (Some \<lparr>selector = Some ''.maincontent'', color = None\<rparr>) demo_page = Inr p' \<and>
        body p' = [1, 2, 3, 4] \<and>
        content (elems p' ! 4) =
          Markup (dimensions_markup ''.maincontent'' ''1280'' ''720'' ''1200.00 px''
                    ''200.25 px'') \<and>
        trace p' =
          [QuerySelector ''.maincontent'', CreateElement 4, AppendChild 4, ReadViewport,
           GetBoundingClientRect 1, SetInnerHTML 4, NewResizeObserver 0, Observe 0 1,
           AddEventListener (UpdateDimensions 1 4 ''.maincontent'')]"
proof -
  have d: "destructure (Some \<lparr>selector = Some ''.maincontent'', color = None\<rparr>) =
             (''.maincontent'', ''#989898'')" by (simp add: destructure_values)
  show ?thesis
    using found_path_renders_once_before_binding [OF d demo_lookup(1)]
    by (auto simp: demo_eval)
qed

text \<open>
  Claim C5. When the selector matches an element of the page, the call adds exactly one
  observer if the host has \<^verbatim>\<open>ResizeObserver\<close> and none otherwise; the observer is bound
  to the render operation and observes the target only, which is not the overlay. In both
  cases the render operation becomes the last listener of the window's resize event, so
  that after a viewport resize the overlay shows the new viewport size.
\<close>

theorem live_update_wiring:
  assumes "destructure arg = (sel, col)" and "matchAll h p sel = Some (el # others)"
    and "el < length (elems p)"
  shows "\<exists>p'. showElementDimensions h arg p = Inr p' \<and>
           observers p' =
             (if hasResizeObserver p then
                observers p @ [(UpdateDimensions el (length (elems p)) sel, [el])]
              else observers p) \<and>
           el \<noteq> length (elems p) \<and>
           resizeListeners p' =
             resizeListeners p @ [UpdateDimensions el (length (elems p)) sel] \<and>
           (\<forall>w ht. content (elems (window_resize h w ht p') ! length (elems p)) =
                     Markup (dimensions_markup sel (long_toString w) (long_toString ht)
                               (toFixed h 2 (width (rects p el)) @ '' px'')
                               (toFixed h 2 (height (rects p el)) @ '' px'')))"
proof -
  let ?b = "length (elems p)"
  let ?cb = "UpdateDimensions el ?b sel"
  obtain p' where s: "showElementDimensions h arg p = Inr p'"
    and e: "length (elems p') = Suc ?b"
    and r: "rects p' = rects p"
    and ob: "observers p' =
               (if hasResizeObserver p then observers p @ [(?cb, [el])] else observers p)"
    and ls: "resizeListeners p' = resizeListeners p @ [?cb]"
    using show_found [OF assms(1,2)] by simp
  have "content (elems (window_resize h w ht p') ! ?b) =
          Markup (dimensions_markup sel (long_toString w) (long_toString ht)
                    (toFixed h 2 (width (rects p el)) @ '' px'')
                    (toFixed h 2 (height (rects p el)) @ '' px''))" for w ht
  proof -
    let ?p0 = "p'\<lparr>innerWidth := w, innerHeight := ht\<rparr>"
    let ?q = "fold (run_callback h) (resizeListeners p) ?p0"
    have w: "window_resize h w ht p' = updateDimensions h el ?b sel ?q"
      by (simp add: window_resize_def ls)
    have f: "innerWidth ?q = w" "innerHeight ?q = ht" "rects ?q = rects p"
      "length (elems ?q) = Suc ?b"
      using fold_callbacks_frame [of h "resizeListeners p" ?p0] e r by simp_all
    show ?thesis
      using f by (simp add: w updateDimensions_self rendered_def)
  qed
  with s ob ls assms(3) show ?thesis by auto
qed

theorem live_update_wiring_witness:
  "(\<exists>p'. showElementDimensions demo_host
           (Some \<lparr>selector = Some ''.maincontent'', color = None\<rparr>) demo_page = Inr p' \<and>
         observers p' = [(UpdateDimensions 1 4 ''.maincontent'', [1])] \<and>
         resizeListeners p' = [UpdateDimensions 1 4 ''.maincontent''] \<and>
         content (elems (window_resize demo_host 800 600 p') ! 4) =
           Markup (dimensions_markup ''.maincontent'' ''800'' ''600'' ''1200.00 px''
                     ''200.25 px'')) \<and>
   (\<exists>p'. showElementDimensions demo_host
           (Some \<lparr>selector = Some ''.maincontent'', color = None\<rparr>)
           (demo_page\<lparr>hasResizeObserver := False\<rparr>) = Inr p' \<and>
         observers p' = [] \<and>
         resizeListeners p' = [UpdateDimensions 1 4 ''.maincontent''] \<and>
         content (elems (window_resize demo_host 800 600 p') ! 4) =
           Markup (dimensions_markup ''.maincontent'' ''800'' ''600'' ''1200.00 px''
                     ''200.25 px''))"
proof -
  let ?a = "Some \<lparr>selector = Some ''.maincontent'', color = None\<rparr>"
  let ?cb = "UpdateDimensions 1 4 ''.maincontent''"
  let ?m = "Markup (dimensions_markup ''.maincontent'' ''800'' ''600'' ''1200.00 px''
                      ''200.25 px'')"
  have d: "destructure ?a = (''.maincontent'', ''#989898'')" by (simp add: destructure_values)
  have l: "1 < length (elems demo_page)" by (simp add: demo_fields)
  obtain p' where s: "showElementDimensions demo_host ?a demo_page = Inr p'"
    and o: "observers p' = [(?cb, [1])]"
    and r: "resizeListeners p' = [?cb]"
    and c: "\<forall>w ht. content (elems (window_resize demo_host w ht p') ! 4) =
              Markup (dimensions_markup ''.maincontent'' (long_toString w) (long_toString ht)
                        ''1200.00 px'' ''200.25 px'')"
    using live_update_wiring [OF d demo_lookup(1) l] by (auto simp: demo_eval)
  from c have c': "content (elems (window_resize demo_host 800 600 p') ! 4) = ?m"
    by (simp add: demo_numbers)
  let ?q = "demo_page\<lparr>hasResizeObserver := False\<rparr>"
  have m: "matchAll demo_host ?q ''.maincontent'' = Some [1]" by (simp add: eval_demo)
  have k: "1 < length (elems ?q)" by (simp add: demo_fields)
  obtain q' where t: "showElementDimensions demo_host ?a ?q = Inr q'"
    and u: "observers q' = []"
    and v: "resizeListeners q' = [?cb]"
    and e: "\<forall>w ht. content (elems (window_resize demo_host w ht q') ! 4) =
              Markup (dimensions_markup ''.maincontent'' (long_toString w) (long_toString ht)
                        ''1200.00 px'' ''200.25 px'')"
    using live_update_wiring [OF d m k] by (auto simp: demo_eval)
  from e have e': "content (elems (window_resize demo_host 800 600 q') ! 4) = ?m"
    by (simp add: demo_numbers)
  from s o r c' t u v e' show ?thesis by blast
qed

section \<open>Two calls\<close>

text \<open>
  Claim C8. Two calls in a row that return have created two elements, at two different
  places of the store; the second call leaves the first overlay as it was, and both are
  children of the body. When both selectors matched, the two render operations are the
  last two resize listeners; a run of the first one leaves the second overlay as it is and
  writes into the first the sizes of its own target, and likewise the other way round.
\<close>

theorem two_calls_two_overlays:
  assumes "destructure a1 = (sel1, col1)" and "showElementDimensions h a1 p = Inr p1"
    and "destructure a2 = (sel2, col2)" and "showElementDimensions h a2 p1 = Inr p2"
  shows "length (elems p1) = Suc (length (elems p)) \<and>
         length (elems p2) = Suc (Suc (length (elems p))) \<and>
         take (length (elems p)) (elems p2) = elems p \<and>
         elems p2 ! length (elems p) = elems p1 ! length (elems p) \<and>
         length (elems p) \<in> set (body p2) \<and> Suc (length (elems p)) \<in> set (body p2) \<and>
         (matchAll h p sel1 = Some (el1 # r1) \<longrightarrow> matchAll h p1 sel2 = Some (el2 # r2) \<longrightarrow>
            resizeListeners p2 =
              resizeListeners p @
                [UpdateDimensions el1 (length (elems p)) sel1,
                 UpdateDimensions el2 (Suc (length (elems p))) sel2] \<and>
            (Suc (length (elems p)) < length (elems q) \<longrightarrow>
               elems (run_callback h (UpdateDimensions el1 (length (elems p)) sel1) q) !
                   Suc (length (elems p)) = elems q ! Suc (length (elems p)) \<and>
               content (elems (run_callback h (UpdateDimensions el1 (length (elems p)) sel1) q) !
                   length (elems p)) = Markup (rendered h sel1 el1 q) \<and>
               elems (run_callback h (UpdateDimensions el2 (Suc (length (elems p))) sel2) q) !
                   length (elems p) = elems q ! length (elems p) \<and>
               content (elems (run_callback h (UpdateDimensions el2 (Suc (length (elems p))) sel2) q) !
                   Suc (length (elems p))) = Markup (rendered h sel2 el2 q)))"
proof -
  let ?b = "length (elems p)"
  obtain c1 where e1: "elems p1 = elems p @ [overlay col1 c1]"
    using show_returns(1) [OF assms(1,2)] by blast
  obtain c2 where e2: "elems p2 = elems p1 @ [overlay col2 c2]"
    using show_returns(1) [OF assms(3,4)] by blast
  have b1: "body p1 = removeAll ?b (body p) @ [?b]"
    using show_returns(2) [OF assms(1,2)] .
  have b2: "body p2 = removeAll (length (elems p1)) (body p1) @ [length (elems p1)]"
    using show_returns(2) [OF assms(3,4)] .
  have a: "length (elems p1) = Suc ?b" "length (elems p2) = Suc (Suc ?b)"
    "take ?b (elems p2) = elems p" "elems p2 ! ?b = elems p1 ! ?b"
    by (simp_all add: e1 e2 nth_append)
  have m: "?b \<in> set (body p2)" "Suc ?b \<in> set (body p2)"
    by (simp_all add: b2 b1 a(1))
  have ls: "resizeListeners p2 =
              resizeListeners p @
                [UpdateDimensions el1 ?b sel1, UpdateDimensions el2 (Suc ?b) sel2]"
    if "matchAll h p sel1 = Some (el1 # r1)" and "matchAll h p1 sel2 = Some (el2 # r2)"
  proof -
    have "resizeListeners p1 = resizeListeners p @ [UpdateDimensions el1 ?b sel1]"
      using show_found [OF assms(1) that(1)] assms(2) by auto
    moreover have "resizeListeners p2 =
        resizeListeners p1 @ [UpdateDimensions el2 (length (elems p1)) sel2]"
      using show_found [OF assms(3) that(2)] assms(4) by auto
    ultimately show ?thesis by (simp add: a(1))
  qed
  have r: "elems (run_callback h (UpdateDimensions el1 ?b sel1) q) ! Suc ?b = elems q ! Suc ?b \<and>
           content (elems (run_callback h (UpdateDimensions el1 ?b sel1) q) ! ?b) =
             Markup (rendered h sel1 el1 q) \<and>
           elems (run_callback h (UpdateDimensions el2 (Suc ?b) sel2) q) ! ?b = elems q ! ?b \<and>
           content (elems (run_callback h (UpdateDimensions el2 (Suc ?b) sel2) q) ! Suc ?b) =
             Markup (rendered h sel2 el2 q)"
    if "Suc ?b < length (elems q)"
    using that by (simp add: updateDimensions_other updateDimensions_self)
  from a m ls r show ?thesis by blast
qed

theorem two_calls_two_overlays_witness:
  "\<exists>p1 p2. showElementDimensions demo_host
             (Some \<lparr>selector = Some ''.maincontent'', color = None\<rparr>) demo_page = Inr p1 \<and>
           showElementDimensions demo_host
             (Some \<lparr>selector = Some ''body'', color = Some ''blue''\<rparr>) p1 = Inr p2 \<and>
           length (elems p2) = 6 \<and> 4 \<in> set (body p2) \<and> 5 \<in> set (body p2) \<and>
           elems p2 ! 4 = elems p1 ! 4 \<and>
           resizeListeners p2 =
             [UpdateDimensions 1 4 ''.maincontent'', UpdateDimensions 0 5 ''body''] \<and>
           elems (run_callback demo_host (UpdateDimensions 1 4 ''.maincontent'') p2) ! 5 =
             elems p2 ! 5 \<and>
           elems (run_callback demo_host (UpdateDimensions 0 5 ''body'') p2) ! 4 = elems p2 ! 4"
proof -
  let ?a1 = "Some \<lparr>selector = Some ''.maincontent'', color = None\<rparr>"
  let ?a2 = "Some \<lparr>selector = Some ''body'', color = Some ''blue''\<rparr>"
  have d1: "destructure ?a1 = (''.maincontent'', ''#989898'')" by (simp add: destructure_values)
  have d2: "destructure ?a2 = (''body'', ''blue'')" by (simp add: destructure_values)
  obtain p1 where s1: "showElementDimensions demo_host ?a1 demo_page = Inr p1"
    and e1: "elems p1 =
               elems demo_page @
                 [overlay ''#989898'' (Markup (rendered demo_host ''.maincontent'' 1 demo_page))]"
    and b1: "body p1 = [1, 2, 3, 4]"
    using show_found [OF d1 demo_lookup(1)] by (simp add: demo_fields)
  have m2: "matchAll demo_host p1 ''body'' = Some [0]"
    by (simp add: demo_host_def demo_matchAll_def ident_def e1 b1 demo_page_def plain_def
        overlay_def nth_append)
  obtain p2 where s2: "showElementDimensions demo_host ?a2 p1 = Inr p2"
    using show_found [OF d2 m2] by simp
  have l: "Suc (length (elems demo_page)) < length (elems p2)"
    using two_calls_two_overlays [OF d1 s1 d2 s2] by (simp add: demo_fields)
  show ?thesis
    using two_calls_two_overlays [OF d1 s1 d2 s2, of 1 "[]" 0 "[]" p2] s1 s2 l
    by (simp add: demo_fields demo_lookup m2)
qed

end
